theory Spec2Isabelle
  imports Complex_Main "HOL-Library.Sublist"
begin

section \<open>The mode scheduler of src/agent/modes.js\<close>

text \<open>
  The file embeds \<^verbatim>\<open>src/agent/modes.js\<close>: the five mode objects of the module-level
  array \<^verbatim>\<open>modes\<close>, the wrapper \<^verbatim>\<open>execute\<close> and the class \<^verbatim>\<open>ModeController\<close>.

  What the code gets from its collaborators (\<^verbatim>\<open>world.js\<close>, \<^verbatim>\<open>skills.js\<close>,
  \<^verbatim>\<open>mcdata.js\<close>, the agent, the bot, the clock and the random generator) is not computed
  here: the answers are the fields of a record \<open>world\<close>, one record for each tick, and
  every theorem holds for all of them. One call of \<^verbatim>\<open>ModeController.update\<close> is one
  function application: the answers do not change between the \<^verbatim>\<open>await\<close>s of one tick,
  and an action dispatched through \<^verbatim>\<open>execute\<close> settles between two ticks, as an event
  of its own.
\<close>

subsection \<open>Entities, actions and what a tick observes\<close>

type_synonym vec3 = "real \<times> real \<times> real"

text \<open>
  An entity object of the bot. \<open>eid\<close> is the identity of the JavaScript object: the code
  compares entities with \<^verbatim>\<open>!==\<close>, which compares references.
\<close>

record entity =
  eid :: nat
  ename :: string
  etype :: string
  eposition :: vec3
  eheight :: real
  emetadata16 :: bool

definition offset :: "vec3 \<Rightarrow> real \<Rightarrow> real \<Rightarrow> real \<Rightarrow> vec3" where
  "offset p dx dy dz = (case p of (px, py, pz) \<Rightarrow> (px + dx, py + dy, pz + dz))"

text \<open>
  The answers of the collaborators during one tick: \<^verbatim>\<open>agent.isIdle()\<close>, the three
  calls of \<^verbatim>\<open>world.getNearestEntityWhere(agent.bot, ..., 8)\<close>,
  \<^verbatim>\<open>world.isClearPath\<close>, \<^verbatim>\<open>world.getNearestBlock(agent.bot, 'torch', 8)\<close> (only
  whether it found a block is read), the names of \<^verbatim>\<open>agent.bot.inventory.items()\<close>,
  \<^verbatim>\<open>agent.bot.entity.position\<close>, \<^verbatim>\<open>agent.bot.nearestEntity()\<close> and the
  \<^verbatim>\<open>distanceTo\<close> between the position of that entity and the bot's,
  \<^verbatim>\<open>Date.now()\<close> in milliseconds, and the five draws of \<^verbatim>\<open>Math.random()\<close> of
  \<^verbatim>\<open>idle_staring\<close> in the order of the source.
\<close>

record world =
  isIdle :: bool
  nearest_hostile :: "entity option"
  nearest_huntable :: "entity option"
  nearest_item :: "entity option"
  isClearPath :: "entity \<Rightarrow> bool"
  near_torch :: bool
  inventory :: "string list"
  bot_position :: vec3
  nearestEntity :: "entity option"
  nearestEntity_distance :: real
  now :: int
  random_stare :: real
  random_again :: real
  random_yaw :: real
  random_pitch :: real
  random_next :: real

text \<open>The function handed to \<^verbatim>\<open>execute\<close> by each mode.\<close>

datatype action =
    DefendSelf nat
  | ChatThenAttackEntity string entity
  | PickupNearbyItems
  | PlaceBlock string vec3

datatype query =
    AgentIsIdle
  | NearestHostile
  | NearestHuntable
  | NearestItem
  | ClearPath nat
  | NearestTorch
  | InventoryItems
  | BotNearestEntity

text \<open>
  What a mode does to the outside during its \<^verbatim>\<open>update\<close>, in the order of the source.
  \<open>Invoked\<close> is written by the controller's loop when it calls \<^verbatim>\<open>mode.update\<close>;
  \<open>Dispatched f t\<close> is the call \<^verbatim>\<open>agent.coder.execute(f, t)\<close> made by \<^verbatim>\<open>execute\<close>.
\<close>

datatype effect =
    Invoked
  | Query query
  | Chat string
  | Dispatched action int
  | LookAt vec3
  | Look real real bool
  | ConsoleLog string

subsection \<open>The mode objects\<close>

datatype update_fn = SelfDefense | Hunting | ItemCollecting | TorchPlacing | IdleStaring

text \<open>
  One record type for the five object literals. \<open>paused\<close> is no property of any literal:
  it is \<open>None\<close> until the controller or \<^verbatim>\<open>pause\<close> assigns it. \<open>update\<close> names the
  function the object carries. \<open>wait\<close>, \<open>prev_item\<close>, \<open>noticed_at\<close> exist on
  \<^verbatim>\<open>item_collecting\<close> only and \<open>staring\<close>, \<open>last_entity\<close>, \<open>next_change\<close> on
  \<^verbatim>\<open>idle_staring\<close> only; no other update function reads or writes them.
\<close>

record mode =
  name :: string
  description :: string
  on :: bool
  active :: bool
  paused :: "bool option"
  update :: update_fn
  wait :: int
  prev_item :: "nat option"
  noticed_at :: int
  staring :: bool
  last_entity :: "nat option"
  next_change :: real

definition new_mode :: "string \<Rightarrow> string \<Rightarrow> update_fn \<Rightarrow> mode" where
  "new_mode n d u =
     \<lparr>name = n, description = d, on = True, active = False, paused = None, update = u,
      wait = 2, prev_item = None, noticed_at = - 1,
      staring = False, last_entity = None, next_change = 0\<rparr>"

definition modes :: "mode list" where
  "modes =
     [new_mode ''self_defense''
        ''Automatically attack nearby enemies. Interrupts other actions.'' SelfDefense,
      new_mode ''hunting'' ''Automatically hunt nearby animals when idle.'' Hunting,
      new_mode ''item_collecting'' ''Automatically collect nearby items when idle.''
        ItemCollecting,
      new_mode ''torch_placing''
        ''Automatically place torches when idle and there are no torches nearby.''
        TorchPlacing,
      new_mode ''idle_staring''
        ''Non-functional animation to look around at entities when idle.'' IdleStaring]"

subsection \<open>The execution wrapper\<close>

text \<open>
  Modelled from the spec: \<^verbatim>\<open>agent.coder.execute\<close> is not in src/. The spec describes it
  as the sandboxed execution facility \<^verbatim>\<open>dispatchAction(asyncAction, timeout) ->
  Outcome{status, message}\<close>, which settles with an outcome on success, on an error of
  the action and on a timeout.
\<close>

datatype status = Succeeded | Failed | TimedOut

record outcome =
  status :: status
  message :: string

text \<open>
  \<^verbatim>\<open>execute\<close> is an async function that the modes call without \<^verbatim>\<open>await\<close>. Up to its
  \<^verbatim>\<open>await\<close> it runs inside the caller: \<open>execute\<close> is that part. \<open>execute_settled\<close> is
  the rest, which runs when \<^verbatim>\<open>agent.coder.execute\<close> has settled with \<open>code_return\<close>.
\<close>

definition execute :: "mode \<Rightarrow> action \<Rightarrow> int \<Rightarrow> mode \<times> effect list" where
  "execute m func timeout = (m\<lparr>active := True\<rparr>, [Dispatched func timeout])"

definition execute_settled :: "mode \<Rightarrow> outcome \<Rightarrow> mode \<times> effect list" where
  "execute_settled m code_return =
     (m\<lparr>active := False\<rparr>,
      [ConsoleLog (''Mode '' @ name m @ '' finished executing, code_return: ''
                   @ message code_return)])"

subsection \<open>The update functions\<close>

definition self_defense_update :: "mode \<Rightarrow> world \<Rightarrow> mode \<times> effect list" where
  "self_defense_update m w =
     (if active m then (m, [])
      else case nearest_hostile w of
        None \<Rightarrow> (m, [Query NearestHostile])
      | Some enemy \<Rightarrow>
          if isClearPath w enemy then
            (case execute m (DefendSelf 8) (- 1) of (m', es) \<Rightarrow>
               (m', [Query NearestHostile, Query (ClearPath (eid enemy)),
                     Chat (''Fighting '' @ ename enemy @ ''!'')] @ es))
          else (m, [Query NearestHostile, Query (ClearPath (eid enemy))]))"

definition hunting_update :: "mode \<Rightarrow> world \<Rightarrow> mode \<times> effect list" where
  "hunting_update m w =
     (if isIdle w then
        (case nearest_huntable w of
           None \<Rightarrow> (m, [Query AgentIsIdle, Query NearestHuntable])
         | Some huntable \<Rightarrow>
             if isClearPath w huntable then
               (case execute m
                   (ChatThenAttackEntity (''Hunting '' @ ename huntable @ ''!'') huntable)
                   (- 1) of (m', es) \<Rightarrow>
                  (m', [Query AgentIsIdle, Query NearestHuntable,
                        Query (ClearPath (eid huntable))] @ es))
             else (m, [Query AgentIsIdle, Query NearestHuntable,
                       Query (ClearPath (eid huntable))]))
      else (m, [Query AgentIsIdle]))"

definition item_collecting_update :: "mode \<Rightarrow> world \<Rightarrow> mode \<times> effect list" where
  "item_collecting_update m w =
     (if active m then (m, [])
      else if isIdle w then
        (case nearest_item w of
           None \<Rightarrow> (m\<lparr>noticed_at := - 1\<rparr>, [Query AgentIsIdle, Query NearestItem])
         | Some item \<Rightarrow>
             if Some (eid item) \<noteq> prev_item m then
               (if isClearPath w item then
                  (let m1 = (if noticed_at m = - 1 then m\<lparr>noticed_at := now w\<rparr> else m) in
                   if now w - noticed_at m1 > wait m1 * 1000 then
                     (case execute (m1\<lparr>prev_item := Some (eid item)\<rparr>) PickupNearbyItems (- 1)
                      of (m2, es) \<Rightarrow>
                        (m2\<lparr>noticed_at := - 1\<rparr>,
                         [Query AgentIsIdle, Query NearestItem, Query (ClearPath (eid item)),
                          Chat (''Picking up '' @ ename item @ ''!'')] @ es))
                   else (m1, [Query AgentIsIdle, Query NearestItem,
                              Query (ClearPath (eid item))]))
                else (m\<lparr>noticed_at := - 1\<rparr>,
                      [Query AgentIsIdle, Query NearestItem, Query (ClearPath (eid item))]))
             else (m\<lparr>noticed_at := - 1\<rparr>, [Query AgentIsIdle, Query NearestItem]))
      else (m, [Query AgentIsIdle]))"

text \<open>
  \<open>item_eligible\<close> is the condition of line 64 of the source,
  \<^verbatim>\<open>item && item !== this.prev_item && await world.isClearPath(agent.bot, item)\<close>.
\<close>

definition item_eligible :: "mode \<Rightarrow> world \<Rightarrow> bool" where
  "item_eligible m w =
     (case nearest_item w of
        None \<Rightarrow> False
      | Some item \<Rightarrow> Some (eid item) \<noteq> prev_item m \<and> isClearPath w item)"

definition torch_placing_update :: "mode \<Rightarrow> world \<Rightarrow> mode \<times> effect list" where
  "torch_placing_update m w =
     (if active m then (m, [])
      else if isIdle w then
        (if \<not> near_torch w then
           (case filter (sublist ''torch'') (inventory w) of
              [] \<Rightarrow> (m, [Query AgentIsIdle, Query NearestTorch, Query InventoryItems])
            | torch # _ \<Rightarrow>
                (case execute m (PlaceBlock torch (bot_position w)) (- 1) of (m', es) \<Rightarrow>
                   (m', [Query AgentIsIdle, Query NearestTorch, Query InventoryItems] @ es)))
         else (m, [Query AgentIsIdle, Query NearestTorch]))
      else (m, [Query AgentIsIdle]))"

text \<open>
  \<^verbatim>\<open>idle_staring.update\<close>, statement by statement: \<open>m1\<close> after line 117, \<open>m2\<close> after the
  \<^verbatim>\<open>if\<close> of line 120, \<open>m3\<close> after line 131, and the \<^verbatim>\<open>if\<close> of line 132 last. The
  numbers are doubles in the source and reals here.
\<close>

definition entity_in_view :: "world \<Rightarrow> bool" where
  "entity_in_view w =
     (case nearestEntity w of
        None \<Rightarrow> False
      | Some entity \<Rightarrow>
          nearestEntity_distance w < 10 \<and> ename entity \<noteq> ''enderman'')"

definition look_at_entity :: "entity \<Rightarrow> effect" where
  "look_at_entity entity =
     (let isbaby = (etype entity \<noteq> ''player'' \<and> emetadata16 entity);
          height = (if isbaby then eheight entity / 2 else eheight entity)
      in LookAt (offset (eposition entity) 0 height 0))"

definition idle_staring_update :: "mode \<Rightarrow> world \<Rightarrow> mode \<times> effect list" where
  "idle_staring_update m w =
     (if isIdle w then
        (let m1 = m\<lparr>active := True\<rparr>;
             entity = nearestEntity w;
             m2 = (if entity_in_view w \<and> map_option eid entity \<noteq> last_entity m1
                   then m1\<lparr>staring := True, last_entity := map_option eid entity,
                           next_change := real_of_int (now w) + random_stare w * 1000 + 4000\<rparr>
                   else m1);
             es2 = (if entity_in_view w \<and> staring m2
                    then (case entity of None \<Rightarrow> [] | Some e \<Rightarrow> [look_at_entity e])
                    else []);
             m3 = (if \<not> entity_in_view w then m2\<lparr>last_entity := None\<rparr> else m2)
         in if real_of_int (now w) > next_change m3 then
              (let st = (random_again w < 3 / 10);
                   es4 = (if \<not> st
                          then [Look (random_yaw w * pi * 2)
                                     ((random_pitch w * pi / 2) - pi / 4) False]
                          else [])
               in (m3\<lparr>staring := st,
                       next_change := real_of_int (now w) + random_next w * 10000 + 2000\<rparr>,
                   [Query AgentIsIdle, Query BotNearestEntity] @ es2 @ es4))
            else (m3, [Query AgentIsIdle, Query BotNearestEntity] @ es2))
      else (m\<lparr>active := False\<rparr>, [Query AgentIsIdle]))"

definition mode_update :: "mode \<Rightarrow> world \<Rightarrow> mode \<times> effect list" where
  "mode_update m w =
     (case update m of
        SelfDefense \<Rightarrow> self_defense_update m w
      | Hunting \<Rightarrow> hunting_update m w
      | ItemCollecting \<Rightarrow> item_collecting_update m w
      | TorchPlacing \<Rightarrow> torch_placing_update m w
      | IdleStaring \<Rightarrow> idle_staring_update m w)"

subsection \<open>The controller\<close>

text \<open>
  A mode object is known by its position in \<open>modes_list\<close>: \<open>modes_map\<close> holds positions,
  as the JavaScript object holds references to the objects of the array, and so does the
  list \<open>pending\<close> of the invocations of \<^verbatim>\<open>execute\<close> that have not settled yet.

  \<^verbatim>\<open>this.modes_map = {}\<close> is an ordinary object: reading a key it does not own goes on
  in \<^verbatim>\<open>Object.prototype\<close>. \<open>object_prototype_keys\<close> are the properties of
  \<^verbatim>\<open>Object.prototype\<close> in ECMAScript (with its Annex B), all functions but
  \<^verbatim>\<open>__proto__\<close>, whose getter answers \<^verbatim>\<open>Object.prototype\<close> itself. The code can
  assign \<^verbatim>\<open>on\<close> and \<^verbatim>\<open>paused\<close> to these objects: \<open>proto_on\<close> and \<open>proto_paused\<close>
  are the two properties on \<^verbatim>\<open>Object.prototype\<close>, which every object without a property
  of its own inherits, \<open>member_on\<close> and \<open>member_paused\<close> those on its functions.
\<close>

datatype jsref = ModeObject nat | ObjectPrototype | PrototypeMember string

record controller =
  modes_list :: "mode list"
  modes_map :: "string \<Rightarrow> nat option"
  pending :: "(nat \<times> action) list"
  proto_on :: "bool option"
  proto_paused :: "bool option"
  member_on :: "string \<Rightarrow> bool option"
  member_paused :: "string \<Rightarrow> bool option"

definition object_prototype_keys :: "string list" where
  "object_prototype_keys =
     [''constructor'', ''__defineGetter__'', ''__defineSetter__'', ''hasOwnProperty'',
      ''__lookupGetter__'', ''__lookupSetter__'', ''isPrototypeOf'',
      ''propertyIsEnumerable'', ''toString'', ''valueOf'', ''toLocaleString'']"

fun index_modes :: "nat \<Rightarrow> mode list \<Rightarrow> (string \<Rightarrow> nat option) \<Rightarrow> (string \<Rightarrow> nat option)" where
  "index_modes i [] mp = mp"
| "index_modes i (m # ms) mp = index_modes (Suc i) ms (mp(name m \<mapsto> i))"

definition ModeController :: "mode list \<Rightarrow> controller" where
  "ModeController ms =
     \<lparr>modes_list = ms, modes_map = index_modes 0 ms Map.empty, pending = [],
      proto_on = None, proto_paused = None,
      member_on = (\<lambda>_. None), member_paused = (\<lambda>_. None)\<rparr>"

definition initModes :: controller where
  "initModes = ModeController modes"

text \<open>\<^verbatim>\<open>this.modes_map[mode_name]\<close>; \<open>None\<close> is \<^verbatim>\<open>undefined\<close>.\<close>

definition modes_map_get :: "controller \<Rightarrow> string \<Rightarrow> jsref option" where
  "modes_map_get c mode_name =
     (case modes_map c mode_name of
        Some i \<Rightarrow> Some (ModeObject i)
      | None \<Rightarrow>
          if mode_name = ''__proto__'' then Some ObjectPrototype
          else if mode_name \<in> set object_prototype_keys then Some (PrototypeMember mode_name)
          else None)"

definition exists :: "controller \<Rightarrow> string \<Rightarrow> bool" where
  "exists c mode_name = (modes_map_get c mode_name \<noteq> None)"

datatype error = TypeError

definition setOn :: "controller \<Rightarrow> string \<Rightarrow> bool \<Rightarrow> error + controller" where
  "setOn c mode_name v =
     (case modes_map_get c mode_name of
        None \<Rightarrow> Inl TypeError
      | Some (ModeObject i) \<Rightarrow>
          Inr (c\<lparr>modes_list := (modes_list c)[i := (modes_list c ! i)\<lparr>on := v\<rparr>]\<rparr>)
      | Some ObjectPrototype \<Rightarrow> Inr (c\<lparr>proto_on := Some v\<rparr>)
      | Some (PrototypeMember k) \<Rightarrow> Inr (c\<lparr>member_on := (member_on c)(k := Some v)\<rparr>))"

text \<open>The value of \<^verbatim>\<open>isOn\<close> is \<open>None\<close> where the source returns \<^verbatim>\<open>undefined\<close>.\<close>

definition isOn :: "controller \<Rightarrow> string \<Rightarrow> error + bool option" where
  "isOn c mode_name =
     (case modes_map_get c mode_name of
        None \<Rightarrow> Inl TypeError
      | Some (ModeObject i) \<Rightarrow> Inr (Some (on (modes_list c ! i)))
      | Some ObjectPrototype \<Rightarrow> Inr (proto_on c)
      | Some (PrototypeMember k) \<Rightarrow>
          Inr (case member_on c k of Some v \<Rightarrow> Some v | None \<Rightarrow> proto_on c))"

definition pause :: "controller \<Rightarrow> string \<Rightarrow> error + controller" where
  "pause c mode_name =
     (case modes_map_get c mode_name of
        None \<Rightarrow> Inl TypeError
      | Some (ModeObject i) \<Rightarrow>
          Inr (c\<lparr>modes_list := (modes_list c)[i := (modes_list c ! i)\<lparr>paused := Some True\<rparr>]\<rparr>)
      | Some ObjectPrototype \<Rightarrow> Inr (c\<lparr>proto_paused := Some True\<rparr>)
      | Some (PrototypeMember k) \<Rightarrow>
          Inr (c\<lparr>member_paused := (member_paused c)(k := Some True)\<rparr>))"

text \<open>
  The truth value of \<^verbatim>\<open>mode.paused\<close>: the mode's own property when it has one, the one
  of \<^verbatim>\<open>Object.prototype\<close> when that has one, \<^verbatim>\<open>undefined\<close> otherwise, which is falsy.
  \<open>pp\<close> is \<open>proto_paused\<close>.
\<close>

definition is_paused :: "bool option \<Rightarrow> mode \<Rightarrow> bool" where
  "is_paused pp m =
     (case paused m of Some v \<Rightarrow> v | None \<Rightarrow> (case pp of Some v \<Rightarrow> v | None \<Rightarrow> False))"

fun getStr_lines :: "mode list \<Rightarrow> string" where
  "getStr_lines [] = []"
| "getStr_lines (m # ms) =
     [CHR 0x0A] @ ''- '' @ name m @ ''('' @ (if on m then ''ON'' else ''OFF'') @ ''): ''
     @ description m @ getStr_lines ms"

definition getStr :: "controller \<Rightarrow> string" where
  "getStr c = ''Available Modes:'' @ getStr_lines (modes_list c)"

text \<open>
  \<^verbatim>\<open>ModeController.update\<close>, the tick. A trace tells for each effect the position of
  the mode it belongs to. \<open>unpause_loop\<close> is the loop of lines 197 to 200 and
  \<open>update_loop\<close> the loop of lines 202 to 209, both from position \<open>i\<close> on; the
  \<^verbatim>\<open>break\<close> of line 206 is the branch that does not recurse.
\<close>

type_synonym trace = "(nat \<times> effect) list"

fun unpause_loop :: "bool option \<Rightarrow> nat \<Rightarrow> mode list \<Rightarrow> mode list \<times> trace" where
  "unpause_loop pp i [] = ([], [])"
| "unpause_loop pp i (m # ms) =
     (case unpause_loop pp (Suc i) ms of (ms', es) \<Rightarrow>
        (m\<lparr>paused := Some False\<rparr> # ms',
         (if is_paused pp m then [(i, ConsoleLog (''Unpausing mode '' @ name m))] else [])
         @ es))"

fun update_loop :: "bool option \<Rightarrow> world \<Rightarrow> nat \<Rightarrow> mode list \<Rightarrow> mode list \<times> trace" where
  "update_loop pp w i [] = ([], [])"
| "update_loop pp w i (m # ms) =
     (if on m \<and> \<not> is_paused pp m then
        (case mode_update m w of (m', es) \<Rightarrow>
           if active m' then (m' # ms, (i, Invoked) # map (Pair i) es)
           else (case update_loop pp w (Suc i) ms of (ms', es') \<Rightarrow>
                   (m' # ms', (i, Invoked) # map (Pair i) es @ es')))
      else (case update_loop pp w (Suc i) ms of (ms', es') \<Rightarrow> (m # ms', es')))"

definition unpause_phase :: "controller \<Rightarrow> world \<Rightarrow> controller \<times> trace" where
  "unpause_phase c w =
     (if isIdle w then
        (case unpause_loop (proto_paused c) 0 (modes_list c) of (ms, es) \<Rightarrow>
           (c\<lparr>modes_list := ms\<rparr>, es))
      else (c, []))"

fun dispatched :: "trace \<Rightarrow> (nat \<times> action) list" where
  "dispatched [] = []"
| "dispatched ((i, Dispatched f t) # es) = (i, f) # dispatched es"
| "dispatched (_ # es) = dispatched es"

definition evaluation_phase :: "controller \<Rightarrow> world \<Rightarrow> controller \<times> trace" where
  "evaluation_phase c w =
     (case update_loop (proto_paused c) w 0 (modes_list c) of (ms, es) \<Rightarrow>
        (c\<lparr>modes_list := ms, pending := pending c @ dispatched es\<rparr>, es))"

definition tick :: "controller \<Rightarrow> world \<Rightarrow> controller \<times> trace" where
  "tick c w =
     (case unpause_phase c w of (c1, es1) \<Rightarrow>
        case evaluation_phase c1 w of (c2, es2) \<Rightarrow> (c2, es1 @ es2))"

text \<open>
  The invocation at position \<open>k\<close> of \<open>pending\<close> settles with \<open>code_return\<close>: the rest of
  \<^verbatim>\<open>execute\<close> runs on the mode object the invocation was made for.
\<close>

definition settle :: "controller \<Rightarrow> nat \<Rightarrow> outcome \<Rightarrow> controller \<times> trace" where
  "settle c k code_return =
     (if k < length (pending c) then
        (case pending c ! k of (i, f) \<Rightarrow>
           case execute_settled (modes_list c ! i) code_return of (m', es) \<Rightarrow>
             (c\<lparr>modes_list := (modes_list c)[i := m'],
                pending := take k (pending c) @ drop (Suc k) (pending c)\<rparr>,
              map (Pair i) es))
      else (c, []))"

text \<open>
  What can happen to a controller: a tick, an invocation settling, and the calls of its
  methods by the rest of the agent. A call that throws leaves the controller as it was.
\<close>

datatype event =
    Tick world
  | Settle nat outcome
  | SetOn string bool
  | IsOn string
  | Pause string
  | Exists string
  | GetStr

definition step :: "controller \<Rightarrow> event \<Rightarrow> controller \<times> trace" where
  "step c e =
     (case e of
        Tick w \<Rightarrow> tick c w
      | Settle k r \<Rightarrow> settle c k r
      | SetOn n v \<Rightarrow> (case setOn c n v of Inl _ \<Rightarrow> (c, []) | Inr c' \<Rightarrow> (c', []))
      | IsOn n \<Rightarrow> (c, [])
      | Pause n \<Rightarrow> (case pause c n of Inl _ \<Rightarrow> (c, []) | Inr c' \<Rightarrow> (c', []))
      | Exists n \<Rightarrow> (c, [])
      | GetStr \<Rightarrow> (c, []))"

fun run :: "controller \<Rightarrow> event list \<Rightarrow> controller \<times> trace" where
  "run c [] = (c, [])"
| "run c (e # evs) =
     (case step c e of (c1, es1) \<Rightarrow> case run c1 evs of (c2, es2) \<Rightarrow> (c2, es1 @ es2))"

inductive reachable :: "controller \<Rightarrow> bool" where
  reachable_init: "reachable initModes"
| reachable_step: "reachable c \<Longrightarrow> reachable (fst (step c e))"

subsection \<open>Reading traces, and the worlds of the examples\<close>

fun is_dispatch :: "effect \<Rightarrow> bool" where
  "is_dispatch (Dispatched f t) = True"
| "is_dispatch _ = False"

text \<open>
  The values of \<^verbatim>\<open>mode.active\<close> at the call of \<^verbatim>\<open>execute\<close>, while the action runs
  and after it has settled.
\<close>

definition active_history :: "mode \<Rightarrow> action \<Rightarrow> int \<Rightarrow> outcome \<Rightarrow> bool list" where
  "active_history m func timeout code_return =
     (case execute m func timeout of (m1, es1) \<Rightarrow>
        case execute_settled m1 code_return of (m2, es2) \<Rightarrow>
          [active m, active m1, active m2])"

text \<open>An idle agent with nothing around it and an empty inventory, at time 1000.\<close>

definition quiet_world :: world where
  "quiet_world =
     \<lparr>isIdle = True, nearest_hostile = None, nearest_huntable = None, nearest_item = None,
      isClearPath = (\<lambda>_. True), near_torch = False, inventory = [],
      bot_position = (0, 64, 0), nearestEntity = None, nearestEntity_distance = 0,
      now = 1000, random_stare = 0, random_again = 0, random_yaw = 0, random_pitch = 0,
      random_next = 0\<rparr>"

definition cow :: entity where
  "cow = \<lparr>eid = 7, ename = ''cow'', etype = ''animal'', eposition = (3, 64, 0),
          eheight = 1, emetadata16 = False\<rparr>"

definition zombie :: entity where
  "zombie = \<lparr>eid = 8, ename = ''zombie'', etype = ''hostile'', eposition = (0, 64, 4),
             eheight = 2, emetadata16 = False\<rparr>"

section \<open>Properties\<close>

subsection \<open>The execution wrapper and idle staring\<close>

lemma idle_staring_no_dispatch:
  "list_all (\<lambda>e. \<not> is_dispatch e) (snd (idle_staring_update m w))"
  by (simp add: idle_staring_update_def look_at_entity_def Let_def split: option.split)

lemma idle_staring_active: "active (fst (idle_staring_update m w)) = isIdle w"
  by (simp add: idle_staring_update_def Let_def)

text \<open>
  C9. \<^verbatim>\<open>idle_staring.update\<close> never calls \<^verbatim>\<open>execute\<close>: its effects hold no dispatch.
  After each of its runs \<^verbatim>\<open>active\<close> is what \<^verbatim>\<open>agent.isIdle()\<close> answered: true
  whenever it runs while the agent is idle, false as soon as it runs while the agent is
  not idle, whatever \<^verbatim>\<open>active\<close> was before.
\<close>

theorem idle_staring_marks_idle:
  "active (fst (idle_staring_update m w)) = isIdle w
   \<and> filter is_dispatch (snd (idle_staring_update m w)) = []"
  using idle_staring_no_dispatch [of m w] idle_staring_active [of m w]
  by (simp add: filter_empty_conv list_all_iff)

theorem idle_staring_marks_idle_witness:
  "active (fst (idle_staring_update (modes ! 4) quiet_world)) = True
   \<and> active (fst (idle_staring_update ((modes ! 4)\<lparr>active := True\<rparr>)
                  (quiet_world\<lparr>isIdle := False\<rparr>))) = False"
  using idle_staring_marks_idle [of "modes ! 4" quiet_world]
    idle_staring_marks_idle [of "(modes ! 4)\<lparr>active := True\<rparr>"
                                "quiet_world\<lparr>isIdle := False\<rparr>"]
  by (simp add: quiet_world_def)

end
